theory Spec2Isabelle
  imports Complex_Main
begin

section \<open>Python values\<close>

text \<open>
  A Python \<open>str\<close> is a sequence of Unicode code points, so a string is a list of
  code points here. \<open>ascii\<close> embeds an ASCII literal. Times in seconds are Python
  floats; they are modelled as rationals (every finite float is one), on which
  \<open>int(...)\<close> and the comparisons with a threshold are exact.
\<close>

type_synonym pystr = "nat list"

definition ascii :: "string \<Rightarrow> pystr" where
  "ascii s = map of_char s"

text \<open>The code points on which \<open>str.isspace\<close> holds; \<open>str.strip()\<close> removes them at both ends.\<close>

definition isspace :: "nat \<Rightarrow> bool" where
  "isspace c \<longleftrightarrow>
     (9 \<le> c \<and> c \<le> 13) \<or> (28 \<le> c \<and> c \<le> 32) \<or> c = 133 \<or> c = 160 \<or> c = 5760 \<or>
     (8192 \<le> c \<and> c \<le> 8202) \<or> c = 8232 \<or> c = 8233 \<or> c = 8239 \<or> c = 8287 \<or> c = 12288"

definition strip :: "pystr \<Rightarrow> pystr" where
  "strip s = rev (dropWhile isspace (rev (dropWhile isspace s)))"

text \<open>\<open>str(n)\<close> for a natural number: its decimal digits.\<close>

fun digits :: "nat \<Rightarrow> pystr" where
  "digits n = (if n < 10 then [48 + n] else digits (n div 10) @ [48 + n mod 10])"

declare digits.simps [simp del]

text \<open>
  The format specification \<open>{i:02}\<close> of an integer: the sign first, then the digits,
  padded with zeros to a total width of two.
\<close>

definition fmt02 :: "int \<Rightarrow> pystr" where
  "fmt02 i = (if i < 0 then 45 # digits (nat (- i))
              else (let d = digits (nat i) in if length d < 2 then 48 # d else d))"

text \<open>\<open>int(x)\<close> of a float truncates towards zero.\<close>

definition py_int :: "rat \<Rightarrow> int" where
  "py_int x = (if 0 \<le> x then \<lfloor>x\<rfloor> else \<lceil>x\<rceil>)"

text \<open>\<open>"\n".join(lines)\<close>.\<close>

fun join_lines :: "pystr list \<Rightarrow> pystr" where
  "join_lines [] = []"
| "join_lines [l] = l"
| "join_lines (l # ls) = l @ [10] @ join_lines ls"

section \<open>Timestamps\<close>

text \<open>
  \<open>AudioProcessor._format_time\<close> (audio\_processor.py) and
  \<open>AudioTranscriber._seconds_to_timestamp\<close> (audio\_transcriber.py). Python's \<open>divmod\<close>
  is floor division, as \<open>div\<close> and \<open>mod\<close> on \<open>int\<close> are.
\<close>

definition format_time :: "rat \<Rightarrow> pystr" where
  "format_time seconds =
     (let total_seconds = py_int seconds;
          hours = total_seconds div 3600; remainder = total_seconds mod 3600;
          minutes = remainder div 60; secs = remainder mod 60
      in fmt02 hours @ [58] @ fmt02 minutes @ [58] @ fmt02 secs)"

definition seconds_to_timestamp :: "rat \<Rightarrow> pystr" where
  "seconds_to_timestamp seconds =
     (let total_seconds = py_int seconds;
          hours = total_seconds div 3600; remainder = total_seconds mod 3600;
          minutes = remainder div 60; secs = remainder mod 60
      in fmt02 hours @ [58] @ fmt02 minutes @ [58] @ fmt02 secs)"

section \<open>Exceptions, paths and the world outside the program\<close>

text \<open>
  An exception is a value. \<open>KeyboardInterrupt\<close> and \<open>SystemExit\<close> derive from
  \<open>BaseException\<close> only, so a handler \<open>except Exception\<close> lets them through;
  \<open>LibraryError\<close> stands for any \<open>Exception\<close> an external library raises.
\<close>

datatype exn =
  RuntimeError | ValueError | ZeroDivisionError | AttributeError | TypeError | LibraryError
  | KeyboardInterrupt | SystemExit nat

fun is_Exception :: "exn \<Rightarrow> bool" where
  "is_Exception KeyboardInterrupt = False"
| "is_Exception (SystemExit n) = False"
| "is_Exception x = True"

text \<open>
  A path is a file of the user (parent, stem, suffix) or a temporary file made by
  \<open>tempfile.mkstemp\<close>, identified by a number, with its suffix.
\<close>

datatype path = Path pystr pystr pystr | TempPath nat pystr

fun path_suffix :: "path \<Rightarrow> pystr" where
  "path_suffix (Path parent stem sfx) = sfx"
| "path_suffix (TempPath n sfx) = sfx"

fun path_stem :: "path \<Rightarrow> pystr" where
  "path_stem (Path parent stem sfx) = stem"
| "path_stem (TempPath n sfx) = ascii ''tmp'' @ digits n"

fun path_parent :: "path \<Rightarrow> pystr" where
  "path_parent (Path parent stem sfx) = parent"
| "path_parent (TempPath n sfx) = ascii ''/tmp''"

definition path_name :: "path \<Rightarrow> pystr" where
  "path_name p = path_stem p @ path_suffix p"

text \<open>
  \<open>str.lower()\<close>, as far as the suffix tests need it: the ASCII capitals, and the Kelvin
  sign, the one other code point whose lower case is an ASCII letter.
\<close>

definition py_lower :: "pystr \<Rightarrow> pystr" where
  "py_lower s = map (\<lambda>c. if 65 \<le> c \<and> c \<le> 90 then c + 32 else if c = 8490 then 107 else c) s"

definition video_suffixes :: "pystr list" where
  "video_suffixes = map ascii [''.mp4'', ''.avi'', ''.mov'', ''.mkv'', ''.webm'']"

definition supported_formats :: "pystr list" where
  "supported_formats =
     map ascii [''.mp4'', ''.avi'', ''.mov'', ''.mkv'', ''.webm'', ''.wav'', ''.mp3'', ''.m4a'', ''.flac'']"

definition is_video :: "path \<Rightarrow> bool" where
  "is_video p \<longleftrightarrow> py_lower (path_suffix p) \<in> set video_suffixes"

text \<open>The values the diarization and audio libraries hand to the program.\<close>

record segment =
  seg_start :: rat
  seg_end :: rat
  duration :: rat

record waveform =
  shape_last :: nat
  content :: nat

text \<open>One item of \<open>itertracks(yield_label=True)\<close>: the segment and its speaker label.\<close>

type_synonym track = "segment \<times> pystr"

datatype component = DiarizationPipeline | WhisperProcessor | WhisperModel | AudioHandler

datatype obj = Obj component nat

datatype call = CropCall path segment | WhisperCall waveform nat

datatype msg =
  ErrNotFound | ErrUnsupported | Banner | Starting | ErrNoResult | MakingReport | Done
  | Interrupted | ErrException

text \<open>
  The external collaborators, fixed for a run: whether a model can be instantiated, what
  the video library, the diarization pipeline, the audio cropper and the Whisper chain
  (feature extraction, \<open>generate\<close>, \<open>batch_decode\<close>) return or raise, and the clock.
  \<open>pipeline_to\<close> is the outcome of moving the diarization pipeline to the device, which
  follows its assignment to the object. The device itself only says where the models
  run and is left out, and so is logging. \<open>mkstemp\<close> and \<open>unlink\<close> are taken to succeed.
\<close>

record env =
  moviepy_available :: bool
  instantiate :: "component \<Rightarrow> exn option"
  pipeline_to :: "exn option"
  video_open :: "path \<Rightarrow> exn + bool"
  write_audiofile :: "path \<Rightarrow> exn option"
  diarize :: "path \<Rightarrow> exn + track list"
  crop :: "path \<Rightarrow> segment \<Rightarrow> exn + waveform \<times> nat"
  whisper :: "waveform \<Rightarrow> nat \<Rightarrow> exn + pystr"
  now :: pystr
  input_exists :: "path \<Rightarrow> bool"
  open_write :: "path \<Rightarrow> exn option"

text \<open>
  The state outside the objects: the temporary files that exist, the log of \<open>unlink\<close>
  calls, the number of objects instantiated so far, the log of calls to the cropper
  (\<open>CropCall\<close>) and of waveforms handed to the Whisper chain (\<open>WhisperCall\<close>), the files
  written and the messages printed.
\<close>

record world =
  tmp_files :: "nat list"
  next_tmp :: nat
  unlinked :: "nat list"
  next_obj :: nat
  calls :: "call list"
  saved :: "(path \<times> pystr) list"
  printed :: "msg list"

definition mkstemp :: "pystr \<Rightarrow> world \<Rightarrow> path \<times> world" where
  "mkstemp sfx w =
     (TempPath (next_tmp w) sfx,
      w\<lparr>tmp_files := tmp_files w @ [next_tmp w], next_tmp := Suc (next_tmp w)\<rparr>)"

fun path_exists :: "env \<Rightarrow> world \<Rightarrow> path \<Rightarrow> bool" where
  "path_exists e w (TempPath n sfx) = (n \<in> set (tmp_files w))"
| "path_exists e w (Path parent stem sfx) = input_exists e (Path parent stem sfx)"

fun unlink :: "path \<Rightarrow> world \<Rightarrow> world" where
  "unlink (TempPath n sfx) w = w\<lparr>tmp_files := removeAll n (tmp_files w), unlinked := unlinked w @ [n]\<rparr>"
| "unlink (Path parent stem sfx) w = w"

definition unlink_if_exists :: "env \<Rightarrow> path \<Rightarrow> world \<Rightarrow> world" where
  "unlink_if_exists e p w = (if path_exists e w p then unlink p w else w)"

definition say :: "msg \<Rightarrow> world \<Rightarrow> world" where
  "say m w = w\<lparr>printed := printed w @ [m]\<rparr>"

definition new_object :: "env \<Rightarrow> component \<Rightarrow> world \<Rightarrow> exn + obj \<times> world" where
  "new_object e c w =
     (case instantiate e c of
        Some x \<Rightarrow> Inl x
      | None \<Rightarrow> Inr (Obj c (next_obj w), w\<lparr>next_obj := Suc (next_obj w)\<rparr>))"

text \<open>
  The body of the \<open>with VideoFileClip(...)\<close> block of both extractors; \<open>no_audio\<close> is the
  exception the extractor raises for a video without an audio track.
\<close>

definition video_block :: "env \<Rightarrow> exn \<Rightarrow> path \<Rightarrow> exn option" where
  "video_block e no_audio video_path =
     (case video_open e video_path of
        Inl x \<Rightarrow> Some x
      | Inr has_audio \<Rightarrow> if \<not> has_audio then Some no_audio else write_audiofile e video_path)"

text \<open>\<open>self.audio_handler.crop(str(audio_path), segment)\<close>, and the same with its entry in the log.\<close>

definition crop_result :: "env \<Rightarrow> obj option \<Rightarrow> path \<Rightarrow> segment \<Rightarrow> exn + waveform \<times> nat" where
  "crop_result e handler audio_path s =
     (case handler of None \<Rightarrow> Inl AttributeError | Some h \<Rightarrow> crop e audio_path s)"

definition audio_crop ::
  "env \<Rightarrow> obj option \<Rightarrow> path \<Rightarrow> segment \<Rightarrow> world \<Rightarrow> (exn + waveform \<times> nat) \<times> world" where
  "audio_crop e handler audio_path s w =
     (crop_result e handler audio_path s,
      case handler of None \<Rightarrow> w | Some h \<Rightarrow> w\<lparr>calls := calls w @ [CropCall audio_path s]\<rparr>)"

text \<open>
  The \<open>try\<close> block of \<open>_transcribe_audio_segment\<close> and \<open>_transcribe_segment\<close>, and the
  functions themselves: an \<open>Exception\<close> becomes the result \<open>None\<close>.
\<close>

definition generate_result ::
  "env \<Rightarrow> obj option \<Rightarrow> obj option \<Rightarrow> waveform \<Rightarrow> nat \<Rightarrow> exn + pystr" where
  "generate_result e proc model wav sample_rate =
     (case proc of
        None \<Rightarrow> Inl TypeError
      | Some p \<Rightarrow> (case model of None \<Rightarrow> Inl AttributeError | Some m \<Rightarrow> whisper e wav sample_rate))"

definition transcription ::
  "env \<Rightarrow> obj option \<Rightarrow> obj option \<Rightarrow> waveform \<Rightarrow> nat \<Rightarrow> exn + pystr option" where
  "transcription e proc model wav sample_rate =
     (case generate_result e proc model wav sample_rate of
        Inr t \<Rightarrow> Inr (Some t)
      | Inl x \<Rightarrow> if is_Exception x then Inr None else Inl x)"

definition transcribe_with ::
  "env \<Rightarrow> obj option \<Rightarrow> obj option \<Rightarrow> waveform \<Rightarrow> nat \<Rightarrow> world \<Rightarrow> (exn + pystr option) \<times> world" where
  "transcribe_with e proc model wav sample_rate w =
     (transcription e proc model wav sample_rate,
      if proc \<noteq> None \<and> model \<noteq> None
      then w\<lparr>calls := calls w @ [WhisperCall wav sample_rate]\<rparr> else w)"

record transcript =
  r_start :: pystr
  r_end :: pystr
  r_speaker :: pystr
  r_text :: pystr

text \<open>
  A \<open>for\<close> loop over the tracks: the body either raises, which ends the loop, or hands
  the results on to the next iteration.
\<close>

fun for_tracks ::
  "(track \<Rightarrow> transcript list \<Rightarrow> world \<Rightarrow> (exn + transcript list) \<times> world) \<Rightarrow>
   track list \<Rightarrow> transcript list \<Rightarrow> world \<Rightarrow> (exn + transcript list) \<times> world" where
  "for_tracks body [] results w = (Inr results, w)"
| "for_tracks body (t # ts) results w =
     (case body t results w of
        (Inl x, w1) \<Rightarrow> (Inl x, w1)
      | (Inr results1, w1) \<Rightarrow> for_tracks body ts results1 w1)"

section \<open>AudioTranscriber (audio\_transcriber.py)\<close>

record audio_transcriber =
  diarization_pipeline :: "obj option"
  whisper_processor :: "obj option"
  whisper_model :: "obj option"
  audio_handler :: "obj option"

text \<open>\<open>AudioTranscriber.__init__\<close>: nothing is loaded.\<close>

definition new_transcriber :: audio_transcriber where
  "new_transcriber =
     \<lparr>diarization_pipeline = None, whisper_processor = None, whisper_model = None,
      audio_handler = None\<rparr>"

text \<open>
  \<open>AudioTranscriber._load_models\<close>. The result is the exception raised, if any, with
  the object as the assignments made before it left it.
\<close>

definition transcriber_load_models ::
  "env \<Rightarrow> audio_transcriber \<Rightarrow> world \<Rightarrow> exn option \<times> audio_transcriber \<times> world" where
  "transcriber_load_models e self w =
     (if diarization_pipeline self \<noteq> None then (None, self, w)
      else
       (case new_object e DiarizationPipeline w of
          Inl x \<Rightarrow> (Some x, self, w)
        | Inr (o1, w1) \<Rightarrow>
           (let self1 = self\<lparr>diarization_pipeline := Some o1\<rparr> in
            case pipeline_to e of
              Some x \<Rightarrow> (Some x, self1, w1)
            | None \<Rightarrow>
               (case new_object e WhisperProcessor w1 of
                  Inl x \<Rightarrow> (Some x, self1, w1)
                | Inr (o2, w2) \<Rightarrow>
                   (let self2 = self1\<lparr>whisper_processor := Some o2\<rparr> in
                    case new_object e WhisperModel w2 of
                      Inl x \<Rightarrow> (Some x, self2, w2)
                    | Inr (o3, w3) \<Rightarrow>
                       (let self3 = self2\<lparr>whisper_model := Some o3\<rparr> in
                        case new_object e AudioHandler w3 of
                          Inl x \<Rightarrow> (Some x, self3, w3)
                        | Inr (o4, w4) \<Rightarrow> (None, self3\<lparr>audio_handler := Some o4\<rparr>, w4)))))))"

text \<open>\<open>AudioTranscriber.extract_audio_from_mp4\<close>.\<close>

definition extract_audio_from_mp4 :: "env \<Rightarrow> path \<Rightarrow> world \<Rightarrow> (exn + path) \<times> world" where
  "extract_audio_from_mp4 e mp4_path w =
     (case mkstemp (ascii ''.wav'') w of
        (temp_audio_path, w1) \<Rightarrow>
          (case video_block e ValueError mp4_path of
             None \<Rightarrow> (Inr temp_audio_path, w1)
           | Some x \<Rightarrow>
               if is_Exception x then (Inl RuntimeError, unlink_if_exists e temp_audio_path w1)
               else (Inl x, w1)))"

text \<open>\<open>AudioTranscriber._transcribe_audio_segment\<close>.\<close>

definition transcribe_audio_segment ::
  "env \<Rightarrow> audio_transcriber \<Rightarrow> waveform \<Rightarrow> nat \<Rightarrow> world \<Rightarrow> (exn + pystr option) \<times> world" where
  "transcribe_audio_segment e self wav sample_rate w =
     transcribe_with e (whisper_processor self) (whisper_model self) wav sample_rate w"

text \<open>The body of the loop of \<open>AudioTranscriber.transcribe_file\<close>.\<close>

definition transcribe_body ::
  "env \<Rightarrow> audio_transcriber \<Rightarrow> path \<Rightarrow> track \<Rightarrow> transcript list \<Rightarrow> world \<Rightarrow>
   (exn + transcript list) \<times> world" where
  "transcribe_body e self audio_path tr results w =
     (case tr of (segment, speaker_label) \<Rightarrow>
        if duration segment < 1 / 2 then (Inr results, w)
        else
         (case audio_crop e (audio_handler self) audio_path segment w of
            (Inl x, w1) \<Rightarrow> (Inl x, w1)
          | (Inr (wav, sample_rate), w1) \<Rightarrow>
             (case transcribe_audio_segment e self wav sample_rate w1 of
                (Inl x, w2) \<Rightarrow> (Inl x, w2)
              | (Inr None, w2) \<Rightarrow> (Inr results, w2)
              | (Inr (Some transcribed_text), w2) \<Rightarrow>
                  if transcribed_text \<noteq> [] \<and> strip transcribed_text \<noteq> []
                  then (Inr (results @
                         [\<lparr>r_start = seconds_to_timestamp (seg_start segment),
                           r_end = seconds_to_timestamp (seg_end segment),
                           r_speaker = speaker_label,
                           r_text = strip transcribed_text\<rparr>]), w2)
                  else (Inr results, w2))))"

text \<open>
  \<open>AudioTranscriber.transcribe_file\<close>: the models, the audio file, then the \<open>try\<close> block
  (diarization and the loop) and its \<open>finally\<close>.
\<close>

definition transcribe_try ::
  "env \<Rightarrow> audio_transcriber \<Rightarrow> path \<Rightarrow> world \<Rightarrow> (exn + transcript list) \<times> world" where
  "transcribe_try e self audio_path w =
     (case diarization_pipeline self of
        None \<Rightarrow> (Inl TypeError, w)
      | Some pl \<Rightarrow>
         (case diarize e audio_path of
            Inl x \<Rightarrow> (Inl x, w)
          | Inr diarization_result \<Rightarrow>
              for_tracks (transcribe_body e self audio_path) diarization_result [] w))"

definition transcribe_file ::
  "env \<Rightarrow> audio_transcriber \<Rightarrow> path \<Rightarrow> world \<Rightarrow>
   (exn + transcript list) \<times> audio_transcriber \<times> world" where
  "transcribe_file e self file_path w =
     (case transcriber_load_models e self w of
        (Some x, self1, w1) \<Rightarrow> (Inl x, self1, w1)
      | (None, self1, w1) \<Rightarrow>
         (case (if is_video file_path
                then (case extract_audio_from_mp4 e file_path w1 of
                        (Inl x, w2) \<Rightarrow> (Inl x, w2)
                      | (Inr audio_path, w2) \<Rightarrow> (Inr (audio_path, Some audio_path), w2))
                else (Inr (file_path, None), w1)) of
            (Inl x, w2) \<Rightarrow> (Inl x, self1, w2)
          | (Inr (audio_path, temp_file), w2) \<Rightarrow>
             (case transcribe_try e self1 audio_path w2 of
                (r, w3) \<Rightarrow>
                  (r, self1,
                   case temp_file of
                     None \<Rightarrow> w3
                   | Some tf \<Rightarrow> unlink_if_exists e tf w3))))"

section \<open>AudioProcessor (audio\_processor.py)\<close>

record audio_processor =
  p_pipeline :: "obj option"
  p_processor :: "obj option"
  p_model :: "obj option"
  p_audio_handler :: "obj option"
  temp_audio_file :: "path option"

definition new_processor :: audio_processor where
  "new_processor =
     \<lparr>p_pipeline = None, p_processor = None, p_model = None, p_audio_handler = None,
      temp_audio_file = None\<rparr>"

text \<open>\<open>AudioProcessor._load_models\<close>: it has no test of its own on what is loaded.\<close>

definition processor_load_models ::
  "env \<Rightarrow> audio_processor \<Rightarrow> world \<Rightarrow> exn option \<times> audio_processor \<times> world" where
  "processor_load_models e self w =
     (case new_object e DiarizationPipeline w of
        Inl x \<Rightarrow> (Some x, self, w)
      | Inr (o1, w1) \<Rightarrow>
         (let self1 = self\<lparr>p_pipeline := Some o1\<rparr> in
          case pipeline_to e of
            Some x \<Rightarrow> (Some x, self1, w1)
          | None \<Rightarrow>
             (case new_object e WhisperProcessor w1 of
                Inl x \<Rightarrow> (Some x, self1, w1)
              | Inr (o2, w2) \<Rightarrow>
                 (let self2 = self1\<lparr>p_processor := Some o2\<rparr> in
                  case new_object e WhisperModel w2 of
                    Inl x \<Rightarrow> (Some x, self2, w2)
                  | Inr (o3, w3) \<Rightarrow>
                     (let self3 = self2\<lparr>p_model := Some o3\<rparr> in
                      case new_object e AudioHandler w3 of
                        Inl x \<Rightarrow> (Some x, self3, w3)
                      | Inr (o4, w4) \<Rightarrow> (None, self3\<lparr>p_audio_handler := Some o4\<rparr>, w4))))))"

text \<open>The start of \<open>AudioProcessor.process_file\<close>: \<open>if self.pipeline is None: self._load_models()\<close>.\<close>

definition ensure_models ::
  "env \<Rightarrow> audio_processor \<Rightarrow> world \<Rightarrow> exn option \<times> audio_processor \<times> world" where
  "ensure_models e self w =
     (if p_pipeline self = None then processor_load_models e self w else (None, self, w))"

text \<open>\<open>AudioProcessor.extract_audio_from_video\<close>: \<open>None\<close> is returned after a caught error.\<close>

definition extract_audio_from_video ::
  "env \<Rightarrow> audio_processor \<Rightarrow> path \<Rightarrow> world \<Rightarrow> (exn + path option) \<times> audio_processor \<times> world" where
  "extract_audio_from_video e self video_path w =
     (if \<not> moviepy_available e then (Inl RuntimeError, self, w)
      else
       (case mkstemp (ascii ''.wav'') w of
          (temp_audio_path, w1) \<Rightarrow>
            (case video_block e RuntimeError video_path of
               None \<Rightarrow>
                 (Inr (Some temp_audio_path), self\<lparr>temp_audio_file := Some temp_audio_path\<rparr>, w1)
             | Some x \<Rightarrow>
                 if is_Exception x then (Inr None, self, unlink_if_exists e temp_audio_path w1)
                 else (Inl x, self, w1))))"

text \<open>\<open>AudioProcessor._transcribe_segment\<close>.\<close>

definition transcribe_segment ::
  "env \<Rightarrow> audio_processor \<Rightarrow> waveform \<Rightarrow> nat \<Rightarrow> world \<Rightarrow> (exn + pystr option) \<times> world" where
  "transcribe_segment e self wav sample_rate w =
     transcribe_with e (p_processor self) (p_model self) wav sample_rate w"

text \<open>
  The body of the loop of \<open>AudioProcessor.process_file\<close>: its \<open>try\<close> block, and the block
  under its handler \<open>except Exception\<close>. The division by a sample rate of zero raises.
\<close>

definition process_try ::
  "env \<Rightarrow> audio_processor \<Rightarrow> path \<Rightarrow> track \<Rightarrow> transcript list \<Rightarrow> world \<Rightarrow>
   (exn + transcript list) \<times> world" where
  "process_try e self audio_path tr results w =
     (case tr of (segment, speaker) \<Rightarrow>
        (case audio_crop e (p_audio_handler self) audio_path segment w of
           (Inl x, w1) \<Rightarrow> (Inl x, w1)
         | (Inr (wav, sample_rate), w1) \<Rightarrow>
            if sample_rate = 0 then (Inl ZeroDivisionError, w1)
            else if (of_nat (shape_last wav) / of_nat sample_rate :: rat) < 1 / 10
            then (Inr results, w1)
            else
             (case transcribe_segment e self wav sample_rate w1 of
                (Inl x, w2) \<Rightarrow> (Inl x, w2)
              | (Inr None, w2) \<Rightarrow> (Inr results, w2)
              | (Inr (Some text), w2) \<Rightarrow>
                  if text \<noteq> [] \<and> strip text \<noteq> []
                  then (Inr (results @
                         [\<lparr>r_start = format_time (seg_start segment),
                           r_end = format_time (seg_end segment),
                           r_speaker = speaker,
                           r_text = strip text\<rparr>]), w2)
                  else (Inr results, w2))))"

definition process_body ::
  "env \<Rightarrow> audio_processor \<Rightarrow> path \<Rightarrow> track \<Rightarrow> transcript list \<Rightarrow> world \<Rightarrow>
   (exn + transcript list) \<times> world" where
  "process_body e self audio_path tr results w =
     (case process_try e self audio_path tr results w of
        (Inl x, w1) \<Rightarrow> if is_Exception x then (Inr results, w1) else (Inl x, w1)
      | (Inr results1, w1) \<Rightarrow> (Inr results1, w1))"

text \<open>\<open>AudioProcessor.process_file\<close>.\<close>

definition process_file ::
  "env \<Rightarrow> audio_processor \<Rightarrow> path \<Rightarrow> world \<Rightarrow>
   (exn + transcript list) \<times> audio_processor \<times> world" where
  "process_file e self input_path w =
     (case ensure_models e self w of
        (Some x, self1, w1) \<Rightarrow> (Inl x, self1, w1)
      | (None, self1, w1) \<Rightarrow>
         (case (if is_video input_path
                then (case extract_audio_from_video e self1 input_path w1 of
                        (Inl x, self2, w2) \<Rightarrow> (Inl x, self2, w2)
                      | (Inr None, self2, w2) \<Rightarrow> (Inl RuntimeError, self2, w2)
                      | (Inr (Some audio_path), self2, w2) \<Rightarrow> (Inr audio_path, self2, w2))
                else (Inr input_path, self1, w1)) of
            (Inl x, self2, w2) \<Rightarrow> (Inl x, self2, w2)
          | (Inr audio_path, self2, w2) \<Rightarrow>
             (case p_pipeline self2 of
                None \<Rightarrow> (Inl TypeError, self2, w2)
              | Some pl \<Rightarrow>
                 (case diarize e audio_path of
                    Inl x \<Rightarrow> (Inl x, self2, w2)
                  | Inr diarization \<Rightarrow>
                     (case for_tracks (process_body e self2 audio_path) diarization [] w2 of
                        (r, w3) \<Rightarrow> (r, self2, w3))))))"

text \<open>\<open>AudioProcessor.cleanup\<close>; only \<open>__del__\<close> calls it.\<close>

definition cleanup :: "env \<Rightarrow> audio_processor \<Rightarrow> world \<Rightarrow> audio_processor \<times> world" where
  "cleanup e self w =
     (case temp_audio_file self of
        None \<Rightarrow> (self, w)
      | Some tf \<Rightarrow>
          if path_exists e w tf then (self\<lparr>temp_audio_file := None\<rparr>, unlink tf w)
          else (self, w))"

section \<open>The report builders\<close>

text \<open>
  The fixed texts of the two reports, as code points: the title, the labels of the input
  file, the date, the number of speakers (with its counter word) and the number of
  segments (with its counter word), and the heading of the content.
\<close>

definition t_title :: pystr where
  "t_title = [35, 32, 127925, 32, 38899, 22768, 25991, 23383, 36215, 12371, 12375, 32080, 26524]"

definition t_input :: pystr where
  "t_input = [42, 42, 128193, 32, 20837, 21147, 12501, 12449, 12452, 12523, 42, 42, 58, 32]"

definition t_date :: pystr where
  "t_date = [42, 42, 128197, 32, 20966, 29702, 26085, 26178, 42, 42, 58, 32]"

definition t_speakers :: pystr where
  "t_speakers = [42, 42, 128101, 32, 35441, 32773, 25968, 42, 42, 58, 32]"

definition t_total :: pystr where
  "t_total = [42, 42, 128202, 32, 32207, 12475, 12464, 12513, 12531, 12488, 25968, 42, 42, 58, 32]"

definition t_content :: pystr where
  "t_content = [35, 35, 32, 128221, 32, 30330, 35441, 20869, 23481]"

definition p_title :: pystr where
  "p_title = [35, 32, 38899, 22768, 25991, 23383, 36215, 12371, 12375, 32080, 26524]"

definition p_input :: pystr where
  "p_input = [42, 42, 20837, 21147, 12501, 12449, 12452, 12523, 42, 42, 58, 32]"

definition p_date :: pystr where
  "p_date = [42, 42, 20966, 29702, 26085, 26178, 42, 42, 58, 32]"

definition p_speakers :: pystr where
  "p_speakers = [42, 42, 35441, 32773, 25968, 42, 42, 58, 32]"

definition p_total :: pystr where
  "p_total = [42, 42, 32207, 12475, 12464, 12513, 12531, 12488, 25968, 42, 42, 58, 32]"

definition p_content :: pystr where
  "p_content = [35, 35, 32, 30330, 35441, 20869, 23481]"

definition mei :: pystr where
  "mei = [21517]"

definition ko :: pystr where
  "ko = [20491]"

text \<open>\<open>len(set(r['speaker'] for r in results))\<close>.\<close>

definition speaker_count :: "transcript list \<Rightarrow> nat" where
  "speaker_count results = length (remdups (map r_speaker results))"

text \<open>
  \<open>AudioTranscriber.create_markdown_report\<close>: the header lines, the three lines of a
  segment, and the lines joined. The date is the clock's, already formatted.
\<close>

definition report_header :: "env \<Rightarrow> transcript list \<Rightarrow> pystr \<Rightarrow> pystr list" where
  "report_header e results input_filename =
     [t_title,
      [],
      t_input @ input_filename,
      t_date @ now e,
      t_speakers @ digits (speaker_count results) @ mei,
      t_total @ digits (length results) @ ko,
      [],
      ascii ''---'',
      [],
      t_content,
      []]"

definition report_block :: "transcript \<Rightarrow> pystr list" where
  "report_block result =
     [ascii ''**['' @ r_start result @ ascii '' - '' @ r_end result @ ascii ''] ''
        @ r_speaker result @ ascii '':**'',
      ascii ''> '' @ r_text result,
      []]"

definition create_markdown_report :: "env \<Rightarrow> transcript list \<Rightarrow> pystr \<Rightarrow> pystr" where
  "create_markdown_report e results input_filename =
     join_lines (report_header e results input_filename @ concat (map report_block results))"

text \<open>\<open>AudioProcessor.results_to_markdown\<close>.\<close>

definition markdown_header :: "env \<Rightarrow> transcript list \<Rightarrow> pystr \<Rightarrow> pystr list" where
  "markdown_header e results input_filename =
     [p_title,
      [],
      p_input @ input_filename,
      p_date @ now e,
      p_speakers @ digits (speaker_count results) @ mei,
      p_total @ digits (length results) @ ko,
      [],
      p_content,
      []]"

definition markdown_block :: "transcript \<Rightarrow> pystr list" where
  "markdown_block result =
     [ascii ''**['' @ r_start result @ ascii '' - '' @ r_end result @ ascii ''] ''
        @ r_speaker result @ ascii '':**'',
      r_text result,
      []]"

definition results_to_markdown :: "env \<Rightarrow> transcript list \<Rightarrow> pystr \<Rightarrow> pystr" where
  "results_to_markdown e results input_filename =
     join_lines (markdown_header e results input_filename @ concat (map markdown_block results))"

text \<open>\<open>AudioTranscriber.save_markdown_file\<close>.\<close>

definition save_markdown_file :: "env \<Rightarrow> pystr \<Rightarrow> path \<Rightarrow> world \<Rightarrow> exn option \<times> world" where
  "save_markdown_file e markdown_content output_path w =
     (case open_write e output_path of
        Some x \<Rightarrow> (Some x, w)
      | None \<Rightarrow> (None, w\<lparr>saved := saved w @ [(output_path, markdown_content)]\<rparr>))"

section \<open>The command line (main.py)\<close>

text \<open>
  The \<open>try\<close> block of \<open>main\<close>: \<open>sys.exit(1)\<close> raises \<open>SystemExit\<close>. Then \<open>main\<close> itself,
  from the parsed arguments to the exit status of the process.
\<close>

definition main_try :: "env \<Rightarrow> path \<Rightarrow> path \<Rightarrow> world \<Rightarrow> exn option \<times> world" where
  "main_try e input_path output_path w =
     (case transcribe_file e new_transcriber input_path (say Starting w) of
        (Inl x, transcriber, w1) \<Rightarrow> (Some x, w1)
      | (Inr results, transcriber, w1) \<Rightarrow>
          if results = [] then (Some (SystemExit 1), say ErrNoResult w1)
          else
           (case save_markdown_file e
                   (create_markdown_report e results (path_name input_path))
                   output_path (say MakingReport w1) of
              (Some x, w2) \<Rightarrow> (Some x, w2)
            | (None, w2) \<Rightarrow> (None, say Done w2)))"

definition main :: "env \<Rightarrow> path \<Rightarrow> path option \<Rightarrow> world \<Rightarrow> nat \<times> world" where
  "main e input_path output w =
     (if \<not> input_exists e input_path then (1, say ErrNotFound w)
      else if py_lower (path_suffix input_path) \<notin> set supported_formats
      then (1, say ErrUnsupported w)
      else
       (let output_path =
              (case output of
                 Some p \<Rightarrow> p
               | None \<Rightarrow>
                   Path (path_parent input_path) (path_stem input_path @ ascii ''_transcript'')
                     (ascii ''.md''))
        in case main_try e input_path output_path (say Banner w) of
             (None, w1) \<Rightarrow> (0, w1)
           | (Some KeyboardInterrupt, w1) \<Rightarrow> (1, say Interrupted w1)
           | (Some (SystemExit n), w1) \<Rightarrow> (n, w1)
           | (Some x, w1) \<Rightarrow> (1, say ErrException w1)))"

section \<open>The upload section of the two web pages (app.py, web\_app.py)\<close>

text \<open>
  What the page shows for an uploaded file of \<open>n\<close> bytes, down to the start button:
  \<open>st.stop()\<close> ends the script, so nothing after it is shown. The size in MB is the
  number of bytes divided by \<open>1024*1024\<close>.
\<close>

datatype widget = SuccessBox | InfoBox | WarningBox | ErrorBox | StartButton

definition app_upload :: "nat \<Rightarrow> widget list" where
  "app_upload n =
     (let file_size_mb = (of_nat n :: rat) / (1024 * 1024) in
      [SuccessBox, InfoBox] @
      (if file_size_mb > 500 then [WarningBox, StartButton]
       else if file_size_mb > 1000 then [ErrorBox]
       else [StartButton]))"

definition web_app_upload :: "nat \<Rightarrow> widget list" where
  "web_app_upload n =
     (let file_size_mb = (of_nat n :: rat) / (1024 * 1024) in
      [SuccessBox, InfoBox, InfoBox] @
      (if file_size_mb > 500 then [WarningBox] else []) @ [StartButton])"

section \<open>The counts of the specification\<close>

text \<open>
  The specification counts, among the diarization segments, those below the duration
  threshold and those whose transcription gives no text. These predicates say what that
  means for a track in either orchestrator. \<open>blank_text\<close>: the text is empty or
  whitespace after trimming, or there is none. In \<open>AudioProcessor\<close> the duration tested is
  that of the cropped waveform, so a track is below the threshold only if it was
  cropped; \<open>skipped_by_exception\<close> is the case that the crop or the division raised.
\<close>

definition blank_text :: "pystr option \<Rightarrow> bool" where
  "blank_text t = (case t of None \<Rightarrow> True | Some s \<Rightarrow> strip s = [])"

definition below_threshold_t :: "track \<Rightarrow> bool" where
  "below_threshold_t tr \<longleftrightarrow> duration (fst tr) < 1 / 2"

definition no_text_t :: "env \<Rightarrow> audio_transcriber \<Rightarrow> path \<Rightarrow> track \<Rightarrow> bool" where
  "no_text_t e self audio_path tr \<longleftrightarrow>
     \<not> below_threshold_t tr \<and>
     (case crop_result e (audio_handler self) audio_path (fst tr) of
        Inl x \<Rightarrow> False
      | Inr (wav, sample_rate) \<Rightarrow>
         (case transcription e (whisper_processor self) (whisper_model self) wav sample_rate of
            Inl x \<Rightarrow> False
          | Inr t \<Rightarrow> blank_text t))"


definition too_short :: "waveform \<Rightarrow> nat \<Rightarrow> bool" where
  "too_short wav sample_rate \<longleftrightarrow>
     sample_rate \<noteq> 0 \<and> (of_nat (shape_last wav) / of_nat sample_rate :: rat) < 1 / 10"



section \<open>The calls a run may make\<close>

text \<open>
  Which calls to the cropper and to the transcription model belong to a run over the
  given tracks. In \<open>AudioTranscriber\<close> both are calls for a track whose duration is not
  below the threshold. In \<open>AudioProcessor\<close> any track may be cropped, and the model is
  called on a cropped waveform that is not too short.
\<close>

definition allowed_call_t :: "env \<Rightarrow> audio_transcriber \<Rightarrow> path \<Rightarrow> track list \<Rightarrow> call \<Rightarrow> bool" where
  "allowed_call_t e self audio_path tracks c =
     (case c of
        CropCall a s \<Rightarrow> a = audio_path \<and> (\<exists>tr\<in>set tracks. fst tr = s) \<and> \<not> duration s < 1 / 2
      | WhisperCall wav sample_rate \<Rightarrow>
          (\<exists>tr\<in>set tracks. \<not> duration (fst tr) < 1 / 2 \<and>
             crop_result e (audio_handler self) audio_path (fst tr) = Inr (wav, sample_rate)))"

definition allowed_call_p :: "env \<Rightarrow> audio_processor \<Rightarrow> path \<Rightarrow> track list \<Rightarrow> call \<Rightarrow> bool" where
  "allowed_call_p e self audio_path tracks c =
     (case c of
        CropCall a s \<Rightarrow> a = audio_path \<and> (\<exists>tr\<in>set tracks. fst tr = s)
      | WhisperCall wav sample_rate \<Rightarrow>
          (\<exists>tr\<in>set tracks.
             crop_result e (p_audio_handler self) audio_path (fst tr) = Inr (wav, sample_rate)) \<and>
          sample_rate \<noteq> 0 \<and> \<not> too_short wav sample_rate)"

section \<open>A recording and three environments\<close>

text \<open>
  A meeting of two speakers in four segments: two seconds, three seconds, a twentieth of
  a second, and two seconds. In \<open>studio\<close> every library call succeeds: the cropper
  returns the samples of the segment at 16000 Hz, and the transcription is a word between
  spaces, but blank for the second segment. In \<open>faulty\<close> the cropper raises on the first
  segment. In \<open>silent\<close> every transcription is blank.
\<close>

definition seg_a :: segment where
  "seg_a = \<lparr>seg_start = 0, seg_end = 2, duration = 2\<rparr>"

definition seg_b :: segment where
  "seg_b = \<lparr>seg_start = 2, seg_end = 5, duration = 3\<rparr>"

definition seg_c :: segment where
  "seg_c = \<lparr>seg_start = 5, seg_end = 101 / 20, duration = 1 / 20\<rparr>"

definition seg_d :: segment where
  "seg_d = \<lparr>seg_start = 6, seg_end = 8, duration = 2\<rparr>"

definition meeting :: "track list" where
  "meeting =
     [(seg_a, ascii ''SPEAKER_00''), (seg_b, ascii ''SPEAKER_01''),
      (seg_c, ascii ''SPEAKER_00''), (seg_d, ascii ''SPEAKER_01'')]"

definition studio :: env where
  "studio =
     \<lparr>moviepy_available = True,
      instantiate = (\<lambda>c. None),
      pipeline_to = None,
      video_open = (\<lambda>p. Inr True),
      write_audiofile = (\<lambda>p. None),
      diarize = (\<lambda>p. Inr meeting),
      crop = (\<lambda>p s. if seg_start s = 0 then Inr (\<lparr>shape_last = 32000, content = 1\<rparr>, 16000)
                     else if seg_start s = 2 then Inr (\<lparr>shape_last = 48000, content = 2\<rparr>, 16000)
                     else if seg_start s = 5 then Inr (\<lparr>shape_last = 800, content = 3\<rparr>, 16000)
                     else Inr (\<lparr>shape_last = 32000, content = 4\<rparr>, 16000)),
      whisper = (\<lambda>wav sr. if content wav = 2 then Inr (ascii ''  '') else Inr (ascii '' hai '')),
      now = ascii ''2024-07-24 10:00:00'',
      input_exists = (\<lambda>p. True),
      open_write = (\<lambda>p. None)\<rparr>"

definition faulty :: env where
  "faulty = studio\<lparr>crop := (\<lambda>p s. if seg_start s = 0 then Inl LibraryError else crop studio p s)\<rparr>"

definition silent :: env where
  "silent = studio\<lparr>whisper := (\<lambda>wav sr. Inr (ascii ''  ''))\<rparr>"

definition empty_world :: world where
  "empty_world =
     \<lparr>tmp_files = [], next_tmp = 0, unlinked = [], next_obj = 0, calls = [], saved = [],
      printed = []\<rparr>"

definition meeting_mp4 :: path where
  "meeting_mp4 = Path (ascii ''.'') (ascii ''meeting'') (ascii ''.mp4'')"

definition meeting_wav :: path where
  "meeting_wav = Path (ascii ''.'') (ascii ''meeting'') (ascii ''.wav'')"

text \<open>The two orchestrators with their models loaded, and the two transcripts of the meeting.\<close>

definition loaded_t :: audio_transcriber where
  "loaded_t =
     \<lparr>diarization_pipeline = Some (Obj DiarizationPipeline 0),
      whisper_processor = Some (Obj WhisperProcessor 1),
      whisper_model = Some (Obj WhisperModel 2),
      audio_handler = Some (Obj AudioHandler 3)\<rparr>"

definition loaded_p :: audio_processor where
  "loaded_p =
     \<lparr>p_pipeline = Some (Obj DiarizationPipeline 0),
      p_processor = Some (Obj WhisperProcessor 1),
      p_model = Some (Obj WhisperModel 2),
      p_audio_handler = Some (Obj AudioHandler 3),
      temp_audio_file = None\<rparr>"

definition said_a :: transcript where
  "said_a =
     \<lparr>r_start = ascii ''00:00:00'', r_end = ascii ''00:00:02'', r_speaker = ascii ''SPEAKER_00'',
      r_text = ascii ''hai''\<rparr>"

definition said_d :: transcript where
  "said_d =
     \<lparr>r_start = ascii ''00:00:06'', r_end = ascii ''00:00:08'', r_speaker = ascii ''SPEAKER_01'',
      r_text = ascii ''hai''\<rparr>"

text \<open>The processor and the world after \<open>meeting.mp4\<close> has been processed once in \<open>studio\<close>.\<close>

definition once_p :: audio_processor where
  "once_p = loaded_p\<lparr>temp_audio_file := Some (TempPath 0 (ascii ''.wav''))\<rparr>"

definition once_w :: world where
  "once_w =
     empty_world\<lparr>tmp_files := [0], next_tmp := 1, next_obj := 4,
       calls :=
         [CropCall (TempPath 0 (ascii ''.wav'')) seg_a,
          WhisperCall \<lparr>shape_last = 32000, content = 1\<rparr> 16000,
          CropCall (TempPath 0 (ascii ''.wav'')) seg_b,
          WhisperCall \<lparr>shape_last = 48000, content = 2\<rparr> 16000,
          CropCall (TempPath 0 (ascii ''.wav'')) seg_c,
          CropCall (TempPath 0 (ascii ''.wav'')) seg_d,
          WhisperCall \<lparr>shape_last = 32000, content = 4\<rparr> 16000]\<rparr>"

section \<open>What the models leave alone\<close>

text \<open>Two worlds with the same temporary files, \<open>unlink\<close> log, written files and messages.\<close>

definition untouched :: "world \<Rightarrow> world \<Rightarrow> bool" where
  "untouched w w' \<longleftrightarrow>
     tmp_files w' = tmp_files w \<and> next_tmp w' = next_tmp w \<and> unlinked w' = unlinked w \<and>
     saved w' = saved w \<and> printed w' = printed w"

section \<open>Properties of the timestamps\<close>

lemma fmt02_two_digits:
  assumes "n < 100"
  shows "fmt02 (int n) = [48 + n div 10, 48 + n mod 10]"
proof (cases "n < 10")
  case True
  then show ?thesis by (simp add: fmt02_def digits.simps)
next
  case False
  with assms have "n div 10 < 10" by simp
  with False show ?thesis
    by (simp add: fmt02_def digits.simps [of n] digits.simps [of "n div 10"])
qed

lemma format_time_whole:
  assumes "py_int x = int t" and "t < 360000"
  shows "format_time x =
     [48 + t div 36000, 48 + t div 3600 mod 10, 58,
      48 + t mod 3600 div 600, 48 + t mod 3600 div 60 mod 10, 58,
      48 + t mod 60 div 10, 48 + t mod 10]"
proof -
  have h: "int t div 3600 = int (t div 3600)"
    "int t mod 3600 div 60 = int (t mod 3600 div 60)"
    "int t mod 3600 mod 60 = int (t mod 60)"
    by (simp_all add: zdiv_int zmod_int mod_mod_cancel)
  have b: "t div 3600 < 100" "t mod 3600 div 60 < 100" "t mod 60 < 100"
    using assms(2) by (auto simp: div_less_iff_less_mult intro: less_trans [OF mod_less_divisor])
  have e: "t div 3600 div 10 = t div 36000" "t mod 3600 div 60 div 10 = t mod 3600 div 600"
    "t mod 60 mod 10 = t mod 10"
    by (simp_all add: div_mult2_eq [symmetric] mod_mod_cancel)
  have "format_time x =
      fmt02 (int (t div 3600)) @ [58] @ fmt02 (int (t mod 3600 div 60)) @ [58] @
      fmt02 (int (t mod 60))"
    by (simp add: format_time_def Let_def assms(1) h)
  then show ?thesis
    by (simp add: fmt02_two_digits [OF b(1)] fmt02_two_digits [OF b(2)]
        fmt02_two_digits [OF b(3)] e)
qed

text \<open>
  Claim C9. The timestamp function renders a non-negative number of seconds below one
  hundred hours as the eight characters \<open>HH:MM:SS\<close> of its whole seconds, each field
  zero-padded to two decimal digits; it gives \<open>00:00:00\<close>, \<open>00:01:05\<close> and \<open>01:01:01\<close> at
  0, 65 and 3661; and the two implementations agree on every input.
\<close>

theorem timestamp_hh_mm_ss:
  "format_time 0 = ascii ''00:00:00'' \<and>
   format_time 65 = ascii ''00:01:05'' \<and>
   format_time 3661 = ascii ''01:01:01'' \<and>
   seconds_to_timestamp x = format_time x \<and>
   (0 \<le> x \<and> x < 360000 \<longrightarrow>
      format_time x =
        (let t = nat \<lfloor>x\<rfloor> in
         [48 + t div 36000, 48 + t div 3600 mod 10, 58,
          48 + t mod 3600 div 600, 48 + t mod 3600 div 60 mod 10, 58,
          48 + t mod 60 div 10, 48 + t mod 10]))"
proof -
  have ex: "format_time 0 = ascii ''00:00:00''" "format_time 65 = ascii ''00:01:05''"
    "format_time 3661 = ascii ''01:01:01''"
    by (simp_all add: format_time_def py_int_def fmt02_def digits.simps ascii_def Let_def)
  have same: "seconds_to_timestamp x = format_time x"
    by (simp add: seconds_to_timestamp_def format_time_def)
  have gen: "format_time x =
        (let t = nat \<lfloor>x\<rfloor> in
         [48 + t div 36000, 48 + t div 3600 mod 10, 58,
          48 + t mod 3600 div 600, 48 + t mod 3600 div 60 mod 10, 58,
          48 + t mod 60 div 10, 48 + t mod 10])"
    if "0 \<le> x" "x < 360000"
  proof -
    from that have "py_int x = int (nat \<lfloor>x\<rfloor>)" by (simp add: py_int_def)
    moreover from that have "nat \<lfloor>x\<rfloor> < 360000" by (simp add: floor_less_iff nat_less_iff)
    ultimately show ?thesis unfolding Let_def by (rule format_time_whole)
  qed
  from ex same gen show ?thesis by blast
qed

theorem timestamp_hh_mm_ss_witness:
  "(0::rat) \<le> 7385 / 2 \<and> (7385 / 2 :: rat) < 360000 \<and>
   seconds_to_timestamp (7385 / 2) = ascii ''01:01:32''"
proof -
  have "\<lfloor>7385 / 2 :: rat\<rfloor> = 3692" by (simp add: floor_eq_iff)
  then have f: "nat \<lfloor>7385 / 2 :: rat\<rfloor> = 3692" by simp
  from timestamp_hh_mm_ss [of "7385 / 2"] show ?thesis
    by (simp add: f ascii_def Let_def)
qed

section \<open>Evaluating a run\<close>

lemmas run_defs =
  transcribe_body_def process_body_def process_try_def audio_crop_def crop_result_def
  transcribe_audio_segment_def transcribe_segment_def transcribe_with_def transcription_def
  generate_result_def strip_def isspace_def ascii_def
  seconds_to_timestamp_def format_time_def py_int_def fmt02_def digits.simps Let_def

lemmas file_defs =
  transcribe_file_def transcribe_try_def transcriber_load_models_def extract_audio_from_mp4_def
  process_file_def ensure_models_def processor_load_models_def extract_audio_from_video_def
  cleanup_def new_object_def mkstemp_def video_block_def unlink_if_exists_def is_video_def
  video_suffixes_def py_lower_def new_transcriber_def new_processor_def

lemmas fixture_defs =
  studio_def faulty_def silent_def meeting_def seg_a_def seg_b_def seg_c_def seg_d_def
  loaded_t_def loaded_p_def empty_world_def meeting_wav_def meeting_mp4_def said_a_def
  said_d_def once_p_def once_w_def

lemma meeting_suffixes: "is_video meeting_mp4" "\<not> is_video meeting_wav"
  by (simp_all add: is_video_def video_suffixes_def py_lower_def meeting_mp4_def meeting_wav_def
      ascii_def)

lemma process_file_audio:
  assumes "\<not> is_video input_path" and "p_pipeline self \<noteq> None"
    and "diarize e input_path = Inr tracks"
  shows "process_file e self input_path w =
     (fst (for_tracks (process_body e self input_path) tracks [] w), self,
      snd (for_tracks (process_body e self input_path) tracks [] w))"
  using assms by (auto simp: process_file_def ensure_models_def split: prod.splits)

lemma transcribe_file_audio:
  assumes "\<not> is_video file_path" and "diarization_pipeline self \<noteq> None"
    and "diarize e file_path = Inr tracks"
  shows "transcribe_file e self file_path w =
     (fst (for_tracks (transcribe_body e self file_path) tracks [] w), self,
      snd (for_tracks (transcribe_body e self file_path) tracks [] w))"
  using assms
  by (auto simp: transcribe_file_def transcriber_load_models_def transcribe_try_def
      split: prod.splits)

lemma loop_t_studio:
  "for_tracks (transcribe_body studio loaded_t meeting_wav) meeting [] empty_world =
     (Inr [said_a, said_d],
      empty_world\<lparr>calls :=
        [CropCall meeting_wav seg_a, WhisperCall \<lparr>shape_last = 32000, content = 1\<rparr> 16000,
         CropCall meeting_wav seg_b, WhisperCall \<lparr>shape_last = 48000, content = 2\<rparr> 16000,
         CropCall meeting_wav seg_d, WhisperCall \<lparr>shape_last = 32000, content = 4\<rparr> 16000]\<rparr>)"
  by (simp add: run_defs fixture_defs)

lemma loop_p_studio:
  "for_tracks (process_body studio loaded_p meeting_wav) meeting [] empty_world =
     (Inr [said_a, said_d],
      empty_world\<lparr>calls :=
        [CropCall meeting_wav seg_a, WhisperCall \<lparr>shape_last = 32000, content = 1\<rparr> 16000,
         CropCall meeting_wav seg_b, WhisperCall \<lparr>shape_last = 48000, content = 2\<rparr> 16000,
         CropCall meeting_wav seg_c,
         CropCall meeting_wav seg_d, WhisperCall \<lparr>shape_last = 32000, content = 4\<rparr> 16000]\<rparr>)"
  by (simp add: run_defs fixture_defs)

lemma loop_p_faulty:
  "for_tracks (process_body faulty loaded_p meeting_wav) meeting [] empty_world =
     (Inr [said_d],
      empty_world\<lparr>calls :=
        [CropCall meeting_wav seg_a,
         CropCall meeting_wav seg_b, WhisperCall \<lparr>shape_last = 48000, content = 2\<rparr> 16000,
         CropCall meeting_wav seg_c,
         CropCall meeting_wav seg_d, WhisperCall \<lparr>shape_last = 32000, content = 4\<rparr> 16000]\<rparr>)"
  by (simp add: run_defs fixture_defs)

lemma counts_t_studio:
  "length (filter below_threshold_t meeting) = 1"
  "length (filter (no_text_t studio loaded_t meeting_wav) meeting) = 1"
  by (simp_all add: run_defs fixture_defs below_threshold_t_def no_text_t_def blank_text_def)

section \<open>Properties of the loop\<close>

lemma for_tracks_world:
  assumes step: "\<And>t results w r w'. t \<in> set ts \<Longrightarrow> W w \<Longrightarrow> body t results w = (r, w') \<Longrightarrow> W w'"
  shows "W w \<Longrightarrow> for_tracks body ts results w = (r, w') \<Longrightarrow> W w'"
  using step
proof (induction ts arbitrary: results w)
  case Nil
  then show ?case by simp
next
  case (Cons t ts)
  have step': "W w' " if "t' \<in> set ts" "W w" "body t' results w = (r, w')" for t' results w r w'
    using Cons.prems(3) [of t' w results r w'] that by simp
  obtain r1 w1 where b: "body t results w = (r1, w1)" by (cases "body t results w")
  have w1: "W w1" using Cons.prems(3) [of t w results r1 w1] Cons.prems(1) b by simp
  show ?case
  proof (cases r1)
    case (Inl x)
    with Cons.prems(2) b have "w' = w1" by simp
    with w1 show ?thesis by simp
  next
    case (Inr results1)
    with Cons.prems(2) b have "for_tracks body ts results1 w1 = (r, w')" by simp
    with w1 show ?thesis using step' by (rule Cons.IH)
  qed
qed

lemma for_tracks_results:
  assumes step: "\<And>t results w results' w'.
      R results \<Longrightarrow> body t results w = (Inr results', w') \<Longrightarrow> R results'"
  shows "R results \<Longrightarrow> for_tracks body ts results w = (Inr rs, w') \<Longrightarrow> R rs"
proof (induction ts arbitrary: results w)
  case Nil
  then show ?case by simp
next
  case (Cons t ts)
  obtain r1 w1 where b: "body t results w = (r1, w1)" by (cases "body t results w")
  show ?case
  proof (cases r1)
    case (Inl x)
    with Cons.prems(2) b show ?thesis by simp
  next
    case (Inr results1)
    with Cons.prems(2) b have l: "for_tracks body ts results1 w1 = (Inr rs, w')" by simp
    have "R results1" using step [of results t w results1 w1] Cons.prems(1) b Inr by simp
    then show ?thesis using l by (rule Cons.IH)
  qed
qed



lemma count_as_sum:
  "int (length (filter P xs)) = sum_list (map (\<lambda>x. if P x then 1 else 0) xs)"
  by (induction xs) simp_all






section \<open>The number of transcripts\<close>





section \<open>The text of a transcript\<close>

lemma strip_fixed: "strip (strip s) = strip s"
proof -
  define a where "a = dropWhile isspace s"
  define b where "b = rev (dropWhile isspace (rev a))"
  have sb: "strip s = b" by (simp add: strip_def a_def b_def)
  have at_end: "dropWhile isspace (rev b) = rev b"
    by (simp add: b_def)
  have at_start: "dropWhile isspace b = b"
  proof (cases b)
    case Nil
    then show ?thesis by simp
  next
    case (Cons c cs)
    have "a = rev (dropWhile isspace (rev a)) @ rev (takeWhile isspace (rev a))"
      by (metis rev_append rev_rev_ident takeWhile_dropWhile_id)
    then have "a = b @ rev (takeWhile isspace (rev a))" by (simp only: b_def)
    with Cons have ac: "a = c # (cs @ rev (takeWhile isspace (rev a)))" by simp
    have "a \<noteq> []" and "hd a = c" by (subst ac, simp)+
    then have "\<not> isspace c" using hd_dropWhile [of isspace s] by (auto simp: a_def)
    with Cons show ?thesis by simp
  qed
  have "strip b = b" by (simp add: strip_def at_start at_end)
  with sb show ?thesis by simp
qed

lemma dropWhile_fixed_hd:
  assumes "dropWhile P xs = xs" and "xs \<noteq> []"
  shows "\<not> P (hd xs)"
proof
  assume p: "P (hd xs)"
  from assms(2) obtain y ys where xs: "xs = y # ys" by (cases xs) auto
  with p have "dropWhile P xs = dropWhile P ys" by simp
  with assms(1) have "length xs = length (dropWhile P ys)" by simp
  also have "\<dots> \<le> length ys" by (rule length_dropWhile_le)
  finally show False using xs by simp
qed

lemma strip_ends:
  assumes "strip s = s" and "s \<noteq> []"
  shows "\<not> isspace (hd s) \<and> \<not> isspace (last s)"
proof -
  define a where "a = dropWhile isspace s"
  have s: "s = rev (dropWhile isspace (rev a))" using assms(1) by (simp add: strip_def a_def)
  then have "rev s = dropWhile isspace (rev a)" by simp
  then have "dropWhile isspace (rev s) = rev s" by simp
  moreover have "rev s \<noteq> []" using assms(2) by simp
  ultimately have "\<not> isspace (hd (rev s))" by (rule dropWhile_fixed_hd)
  then have l: "\<not> isspace (last s)" using assms(2) by (simp add: hd_rev)
  have "a = rev (dropWhile isspace (rev a)) @ rev (takeWhile isspace (rev a))"
    by (metis rev_append rev_rev_ident takeWhile_dropWhile_id)
  with s have as: "a = s @ rev (takeWhile isspace (rev a))" by simp
  with assms(2) have "a \<noteq> []" by auto
  then have "\<not> isspace (hd a)" unfolding a_def by (rule hd_dropWhile)
  moreover have "hd a = hd s" by (subst as) (simp add: assms(2))
  ultimately show ?thesis using l by simp
qed

lemma transcribe_body_clean:
  assumes "\<forall>r\<in>set results. r_text r \<noteq> [] \<and> strip (r_text r) = r_text r"
    and "transcribe_body e self p tr results w = (Inr results', w')"
  shows "\<forall>r\<in>set results'. r_text r \<noteq> [] \<and> strip (r_text r) = r_text r"
  using assms
  by (auto simp: transcribe_body_def strip_fixed
      split: prod.splits if_splits sum.splits option.splits)

lemma process_body_clean:
  assumes "\<forall>r\<in>set results. r_text r \<noteq> [] \<and> strip (r_text r) = r_text r"
    and "process_body e self p tr results w = (Inr results', w')"
  shows "\<forall>r\<in>set results'. r_text r \<noteq> [] \<and> strip (r_text r) = r_text r"
  using assms
  by (auto simp: process_body_def process_try_def strip_fixed
      split: prod.splits if_splits sum.splits option.splits)

lemma transcribe_file_runs_loop:
  assumes "transcribe_file e t file_path w = (Inr rs, t', w')"
  shows "\<exists>audio_path tracks w2 w3.
     diarize e audio_path = Inr tracks \<and>
     for_tracks (transcribe_body e t' audio_path) tracks [] w2 = (Inr rs, w3)"
  using assms
  by (auto simp: transcribe_file_def transcribe_try_def
      split: prod.splits option.splits sum.splits if_splits)

lemma process_file_runs_loop:
  assumes "process_file e p input_path w = (Inr rs, p', w')"
  shows "\<exists>audio_path tracks w2 w3.
     diarize e audio_path = Inr tracks \<and>
     for_tracks (process_body e p' audio_path) tracks [] w2 = (Inr rs, w3)"
  using assms
  by (auto simp: process_file_def split: prod.splits option.splits sum.splits if_splits)

text \<open>
  Claim C10. Every transcript in the list that \<open>transcribe_file\<close> or \<open>process_file\<close>
  returns has a text that is not empty and is its own stripped value: it neither starts
  nor ends with whitespace.
\<close>

theorem text_stripped_nonempty:
  "(transcribe_file e t file_path w = (Inr rs, t', w') \<longrightarrow>
      (\<forall>r\<in>set rs. r_text r \<noteq> [] \<and> strip (r_text r) = r_text r \<and>
         \<not> isspace (hd (r_text r)) \<and> \<not> isspace (last (r_text r)))) \<and>
   (process_file e p file_path w = (Inr rs, p', w') \<longrightarrow>
      (\<forall>r\<in>set rs. r_text r \<noteq> [] \<and> strip (r_text r) = r_text r \<and>
         \<not> isspace (hd (r_text r)) \<and> \<not> isspace (last (r_text r))))"
proof (intro conjI impI)
  assume "transcribe_file e t file_path w = (Inr rs, t', w')"
  then obtain audio_path tracks w2 w3
    where "for_tracks (transcribe_body e t' audio_path) tracks [] w2 = (Inr rs, w3)"
    using transcribe_file_runs_loop by blast
  then have "\<forall>r\<in>set rs. r_text r \<noteq> [] \<and> strip (r_text r) = r_text r"
    by (rule for_tracks_results [where R = "\<lambda>rs. \<forall>r\<in>set rs. r_text r \<noteq> [] \<and> strip (r_text r) = r_text r", rotated 2])
      (erule (1) transcribe_body_clean, simp)
  then show "\<forall>r\<in>set rs. r_text r \<noteq> [] \<and> strip (r_text r) = r_text r \<and>
         \<not> isspace (hd (r_text r)) \<and> \<not> isspace (last (r_text r))"
    using strip_ends by blast
next
  assume "process_file e p file_path w = (Inr rs, p', w')"
  then obtain audio_path tracks w2 w3
    where "for_tracks (process_body e p' audio_path) tracks [] w2 = (Inr rs, w3)"
    using process_file_runs_loop by blast
  then have "\<forall>r\<in>set rs. r_text r \<noteq> [] \<and> strip (r_text r) = r_text r"
    by (rule for_tracks_results [where R = "\<lambda>rs. \<forall>r\<in>set rs. r_text r \<noteq> [] \<and> strip (r_text r) = r_text r", rotated 2])
      (erule (1) process_body_clean, simp)
  then show "\<forall>r\<in>set rs. r_text r \<noteq> [] \<and> strip (r_text r) = r_text r \<and>
         \<not> isspace (hd (r_text r)) \<and> \<not> isspace (last (r_text r))"
    using strip_ends by blast
qed

lemma file_t_studio:
  "fst (transcribe_file studio loaded_t meeting_wav empty_world) = Inr [said_a, said_d]"
proof -
  have "diarize studio meeting_wav = Inr meeting" by (simp add: studio_def)
  moreover have "diarization_pipeline loaded_t \<noteq> None" by (simp add: loaded_t_def)
  ultimately show ?thesis
    using meeting_suffixes(2) by (simp add: transcribe_file_audio loop_t_studio)
qed

lemma file_p_faulty:
  "fst (process_file faulty loaded_p meeting_wav empty_world) = Inr [said_d]"
proof -
  have "diarize faulty meeting_wav = Inr meeting" by (simp add: faulty_def studio_def)
  moreover have "p_pipeline loaded_p \<noteq> None" by (simp add: loaded_p_def)
  ultimately show ?thesis
    using meeting_suffixes(2) by (simp add: process_file_audio loop_p_faulty)
qed

theorem text_stripped_nonempty_witness:
  "fst (transcribe_file studio loaded_t meeting_wav empty_world) = Inr [said_a, said_d] \<and>
   r_text said_a = ascii ''hai'' \<and> strip (r_text said_a) = r_text said_a \<and>
   \<not> isspace (hd (r_text said_a)) \<and>
   fst (process_file faulty loaded_p meeting_wav empty_world) = Inr [said_d] \<and>
   strip (r_text said_d) = r_text said_d \<and> \<not> isspace (last (r_text said_d))"
proof -
  obtain t' w' where t: "transcribe_file studio loaded_t meeting_wav empty_world = (Inr [said_a, said_d], t', w')"
    using file_t_studio by (cases "transcribe_file studio loaded_t meeting_wav empty_world") auto
  obtain p' w'' where p: "process_file faulty loaded_p meeting_wav empty_world = (Inr [said_d], p', w'')"
    using file_p_faulty by (cases "process_file faulty loaded_p meeting_wav empty_world") auto
  from text_stripped_nonempty [where e = studio and t = loaded_t and file_path = meeting_wav
      and w = empty_world and rs = "[said_a, said_d]" and t' = t' and w' = w'] t
  have "strip (r_text said_a) = r_text said_a \<and> \<not> isspace (hd (r_text said_a))" by simp
  moreover
  from text_stripped_nonempty [where e = faulty and p = loaded_p and file_path = meeting_wav
      and w = empty_world and rs = "[said_d]" and p' = p' and w' = w''] p
  have "strip (r_text said_d) = r_text said_d \<and> \<not> isspace (last (r_text said_d))" by simp
  ultimately show ?thesis using file_t_studio file_p_faulty by (simp add: said_a_def)
qed

section \<open>The threshold and the calls to the models\<close>

lemma transcribe_body_calls:
  assumes "tr \<in> set tracks" and "\<forall>c\<in>set (calls w). allowed_call_t e self p tracks c"
    and "transcribe_body e self p tr results w = (r, w')"
  shows "\<forall>c\<in>set (calls w'). allowed_call_t e self p tracks c"
proof -
  obtain s spk where tr: "tr = (s, spk)" by (cases tr)
  show ?thesis
  proof (cases "duration s < 1 / 2")
    case True
    with assms(2,3) tr show ?thesis by (simp add: transcribe_body_def)
  next
    case long: False
    have crop_ok: "allowed_call_t e self p tracks (CropCall p s)"
      using assms(1) tr long by (force simp: allowed_call_t_def)
    show ?thesis
    proof (cases "crop_result e (audio_handler self) p s")
      case (Inl x)
      with assms(2,3) tr long crop_ok show ?thesis
        by (auto simp: transcribe_body_def audio_crop_def split: option.splits)
    next
      case (Inr cr)
      obtain wav sr where cr: "cr = (wav, sr)" by (cases cr)
      have gen_ok: "allowed_call_t e self p tracks (WhisperCall wav sr)"
        using assms(1) tr long Inr cr by (force simp: allowed_call_t_def)
      from assms(2,3) tr long Inr cr crop_ok gen_ok show ?thesis
        by (auto simp: transcribe_body_def audio_crop_def transcribe_audio_segment_def
            transcribe_with_def split: option.splits sum.splits if_splits)
    qed
  qed
qed

lemma process_body_calls:
  assumes "tr \<in> set tracks" and "\<forall>c\<in>set (calls w). allowed_call_p e self p tracks c"
    and "process_body e self p tr results w = (r, w')"
  shows "\<forall>c\<in>set (calls w'). allowed_call_p e self p tracks c"
proof -
  obtain s spk where tr: "tr = (s, spk)" by (cases tr)
  have crop_ok: "allowed_call_p e self p tracks (CropCall p s)"
    using assms(1) tr by (force simp: allowed_call_p_def)
  show ?thesis
  proof (cases "crop_result e (p_audio_handler self) p s")
    case (Inl x)
    with assms tr crop_ok show ?thesis
      by (auto simp: process_body_def process_try_def audio_crop_def
          split: option.splits if_splits)
  next
    case (Inr cr)
    obtain wav sr where cr: "cr = (wav, sr)" by (cases cr)
    show ?thesis
    proof (cases "sr \<noteq> 0 \<and> \<not> too_short wav sr")
      case True
      then have gen_ok: "allowed_call_p e self p tracks (WhisperCall wav sr)"
        using assms(1) tr Inr cr by (force simp: allowed_call_p_def)
      from assms(2,3) tr Inr cr crop_ok gen_ok True show ?thesis
        by (auto simp: process_body_def process_try_def audio_crop_def transcribe_segment_def
            transcribe_with_def too_short_def split: option.splits sum.splits if_splits)
    next
      case False
      with assms(2,3) tr Inr cr crop_ok show ?thesis
        by (auto simp: process_body_def process_try_def audio_crop_def too_short_def
            split: option.splits sum.splits if_splits)
    qed
  qed
qed

text \<open>
  Claim C5, as amended. In \<open>AudioTranscriber\<close> a run of the loop crops, and transcribes,
  only for segments whose duration is not below the threshold. In \<open>AudioProcessor\<close> the
  threshold is tested on the cropped waveform, so every segment may be cropped, and the
  transcription model is called only on a cropped waveform that is not too short.
\<close>

theorem models_called_above_threshold:
  "(calls w = [] \<and> for_tracks (transcribe_body e t audio_path) tracks results w = (r, w') \<longrightarrow>
      (\<forall>c\<in>set (calls w'). allowed_call_t e t audio_path tracks c)) \<and>
   (calls w = [] \<and> for_tracks (process_body e p audio_path) tracks results w = (r, w') \<longrightarrow>
      (\<forall>c\<in>set (calls w'). allowed_call_p e p audio_path tracks c))"
proof (intro conjI impI)
  assume a: "calls w = [] \<and> for_tracks (transcribe_body e t audio_path) tracks results w = (r, w')"
  then have "\<forall>c\<in>set (calls w). allowed_call_t e t audio_path tracks c" by simp
  moreover from a have "for_tracks (transcribe_body e t audio_path) tracks results w = (r, w')" by simp
  ultimately show "\<forall>c\<in>set (calls w'). allowed_call_t e t audio_path tracks c"
    by (rule for_tracks_world [where W = "\<lambda>w. \<forall>c\<in>set (calls w). allowed_call_t e t audio_path tracks c", rotated])
      (rule transcribe_body_calls)
next
  assume a: "calls w = [] \<and> for_tracks (process_body e p audio_path) tracks results w = (r, w')"
  then have "\<forall>c\<in>set (calls w). allowed_call_p e p audio_path tracks c" by simp
  moreover from a have "for_tracks (process_body e p audio_path) tracks results w = (r, w')" by simp
  ultimately show "\<forall>c\<in>set (calls w'). allowed_call_p e p audio_path tracks c"
    by (rule for_tracks_world [where W = "\<lambda>w. \<forall>c\<in>set (calls w). allowed_call_p e p audio_path tracks c", rotated])
      (rule process_body_calls)
qed

theorem models_called_above_threshold_witness:
  "calls empty_world = [] \<and>
   CropCall meeting_wav seg_d
     \<in> set (calls (snd (for_tracks (transcribe_body studio loaded_t meeting_wav) meeting [] empty_world))) \<and>
   allowed_call_t studio loaded_t meeting_wav meeting (CropCall meeting_wav seg_d) \<and>
   WhisperCall \<lparr>shape_last = 32000, content = 4\<rparr> 16000
     \<in> set (calls (snd (for_tracks (process_body studio loaded_p meeting_wav) meeting [] empty_world))) \<and>
   allowed_call_p studio loaded_p meeting_wav meeting
     (WhisperCall \<lparr>shape_last = 32000, content = 4\<rparr> 16000)"
proof -
  have c: "calls empty_world = []" by (simp add: empty_world_def)
  from models_called_above_threshold [where e = studio and t = loaded_t
      and audio_path = meeting_wav and tracks = meeting and results = "[]" and w = empty_world
      and r = "Inr [said_a, said_d]"
      and w' = "snd (for_tracks (transcribe_body studio loaded_t meeting_wav) meeting [] empty_world)"]
  have "allowed_call_t studio loaded_t meeting_wav meeting (CropCall meeting_wav seg_d)"
    by (simp add: c loop_t_studio)
  moreover
  from models_called_above_threshold [where e = studio and p = loaded_p
      and audio_path = meeting_wav and tracks = meeting and results = "[]" and w = empty_world
      and r = "Inr [said_a, said_d]"
      and w' = "snd (for_tracks (process_body studio loaded_p meeting_wav) meeting [] empty_world)"]
  have "allowed_call_p studio loaded_p meeting_wav meeting
     (WhisperCall \<lparr>shape_last = 32000, content = 4\<rparr> 16000)"
    by (simp add: c loop_p_studio)
  ultimately show ?thesis by (simp add: c loop_t_studio loop_p_studio)
qed

text \<open>
  The claim as stated fails in \<open>AudioProcessor\<close>: the third segment of the meeting lasts a
  twentieth of a second, its 800 samples at 16000 Hz are below the threshold, and the
  run has cropped it.
\<close>

theorem crop_before_threshold_counterexample:
  "duration seg_c < 1 / 10 \<and>
   crop studio meeting_wav seg_c = Inr (\<lparr>shape_last = 800, content = 3\<rparr>, 16000) \<and>
   too_short \<lparr>shape_last = 800, content = 3\<rparr> 16000 \<and>
   CropCall meeting_wav seg_c
     \<in> set (calls (snd (snd (process_file studio loaded_p meeting_wav empty_world))))"
proof -
  have "diarize studio meeting_wav = Inr meeting" by (simp add: studio_def)
  moreover have "p_pipeline loaded_p \<noteq> None" by (simp add: loaded_p_def)
  ultimately have "snd (snd (process_file studio loaded_p meeting_wav empty_world)) =
      snd (for_tracks (process_body studio loaded_p meeting_wav) meeting [] empty_world)"
    using meeting_suffixes(2) by (simp add: process_file_audio)
  then show ?thesis
    by (simp add: loop_p_studio too_short_def) (simp add: studio_def seg_c_def)
qed

section \<open>An exception in one segment\<close>

text \<open>
  \<open>AudioProcessor\<close> skips a segment whose crop raises an \<open>Exception\<close>. In
  \<open>AudioTranscriber\<close> the crop stands outside any handler: if the crop of one segment
  that is not below the threshold raises, the loop ends with an exception.
\<close>

lemma process_body_tolerates:
  assumes "crop_result e (p_audio_handler self) p (fst tr) = Inl x" and "is_Exception x"
  shows "fst (process_body e self p tr results w) = Inr results"
  using assms
  by (cases tr) (simp add: process_body_def process_try_def audio_crop_def)

lemma transcribe_body_aborts:
  assumes "\<not> duration (fst tr) < 1 / 2"
    and "crop_result e (audio_handler self) p (fst tr) = Inl x"
  shows "fst (transcribe_body e self p tr results w) = Inl x"
  using assms
  by (cases tr) (simp add: transcribe_body_def audio_crop_def)

lemma transcribe_loop_aborts:
  assumes "tr \<in> set tracks" and "\<not> duration (fst tr) < 1 / 2"
    and "crop_result e (audio_handler self) p (fst tr) = Inl x"
  shows "\<exists>y. fst (for_tracks (transcribe_body e self p) tracks results w) = Inl y"
  using assms(1)
proof (induction tracks arbitrary: results w)
  case Nil
  then show ?case by simp
next
  case (Cons t ts)
  obtain r1 w1 where b: "transcribe_body e self p t results w = (r1, w1)"
    by (cases "transcribe_body e self p t results w")
  show ?case
  proof (cases r1)
    case (Inl y)
    with b show ?thesis by simp
  next
    case (Inr results1)
    have "t \<noteq> tr"
    proof
      assume "t = tr"
      with transcribe_body_aborts [OF assms(2,3), of results w] b Inr show False by simp
    qed
    with Cons.prems have "tr \<in> set ts" by simp
    then have "\<exists>y. fst (for_tracks (transcribe_body e self p) ts results1 w1) = Inl y"
      by (rule Cons.IH)
    with b Inr show ?thesis by simp
  qed
qed

text \<open>
  Claim C1 (the code departs from it). The cropper raises on the first segment of the
  meeting: \<open>transcribe_file\<close> ends with that exception after this one call, although the
  fourth segment has text; \<open>process_file\<close> skips the segment and returns the fourth.
\<close>

theorem crop_exception_ends_transcribe_file:
  "crop faulty meeting_wav seg_a = Inl LibraryError \<and>
   fst (transcribe_file faulty new_transcriber meeting_wav empty_world) = Inl LibraryError \<and>
   calls (snd (snd (transcribe_file faulty new_transcriber meeting_wav empty_world))) =
     [CropCall meeting_wav seg_a] \<and>
   fst (process_file faulty new_processor meeting_wav empty_world) = Inr [said_d]"
  by (simp add: file_defs run_defs fixture_defs)

section \<open>The temporary audio file\<close>

lemma untouched_refl: "untouched w w"
  by (simp add: untouched_def)

lemma load_untouched:
  assumes "transcriber_load_models e t w = (r, t', w')"
  shows "untouched w w'"
  using assms
  by (auto simp: transcriber_load_models_def new_object_def untouched_def Let_def
      split: if_splits sum.splits option.splits prod.splits)

lemma transcribe_body_untouched:
  assumes "untouched w0 w" and "transcribe_body e self p tr results w = (r, w')"
  shows "untouched w0 w'"
  using assms
  by (auto simp: transcribe_body_def audio_crop_def transcribe_audio_segment_def
      transcribe_with_def untouched_def
      split: prod.splits if_splits sum.splits option.splits)

lemma transcribe_try_untouched:
  assumes "transcribe_try e self p w = (r, w')"
  shows "untouched w w'"
proof (cases "diarization_pipeline self")
  case None
  with assms show ?thesis by (simp add: transcribe_try_def untouched_def)
next
  case (Some pl)
  show ?thesis
  proof (cases "diarize e p")
    case (Inl x)
    with Some assms show ?thesis by (simp add: transcribe_try_def untouched_def)
  next
    case (Inr tracks)
    with Some assms have "for_tracks (transcribe_body e self p) tracks [] w = (r, w')"
      by (simp add: transcribe_try_def)
    with untouched_refl [of w] show ?thesis
      by (rule for_tracks_world [where W = "untouched w", rotated])
        (erule (1) transcribe_body_untouched)
  qed
qed

lemma transcribe_file_output:
  assumes "transcribe_file e t file_path w = (r, t', w')"
  shows "saved w' = saved w \<and> printed w' = printed w"
proof -
  obtain r1 t1 w1 where l: "transcriber_load_models e t w = (r1, t1, w1)"
    by (cases "transcriber_load_models e t w")
  then have u1: "untouched w w1" by (rule load_untouched)
  show ?thesis
  proof (cases r1)
    case (Some x)
    with l assms u1 show ?thesis by (simp add: transcribe_file_def untouched_def)
  next
    case None
    show ?thesis
    proof (cases "is_video file_path")
      case False
      obtain r3 w3 where t: "transcribe_try e t1 file_path w1 = (r3, w3)"
        by (cases "transcribe_try e t1 file_path w1")
      then have "untouched w1 w3" by (rule transcribe_try_untouched)
      with u1 l None False t assms show ?thesis
        by (auto simp: transcribe_file_def untouched_def)
    next
      case True
      obtain r2 w2 where x: "extract_audio_from_mp4 e file_path w1 = (r2, w2)"
        by (cases "extract_audio_from_mp4 e file_path w1")
      then have o2: "saved w2 = saved w1 \<and> printed w2 = printed w1"
        by (cases "mkstemp (ascii ''.wav'') w1")
          (auto simp: extract_audio_from_mp4_def mkstemp_def unlink_if_exists_def
            split: option.splits if_splits)
      show ?thesis
      proof (cases r2)
        case (Inl y)
        with l None True x assms o2 u1 show ?thesis
          by (auto simp: transcribe_file_def untouched_def)
      next
        case (Inr audio_path)
        obtain r3 w3 where t: "transcribe_try e t1 audio_path w2 = (r3, w3)"
          by (cases "transcribe_try e t1 audio_path w2")
        then have "untouched w2 w3" by (rule transcribe_try_untouched)
        moreover have "saved (unlink_if_exists e audio_path w3) = saved w3 \<and>
            printed (unlink_if_exists e audio_path w3) = printed w3"
          by (cases audio_path) (simp_all add: unlink_if_exists_def)
        ultimately show ?thesis
          using l None True x Inr t assms o2 u1
          by (auto simp: transcribe_file_def untouched_def)
      qed
    qed
  qed
qed

lemma transcribe_file_deletes_temp:
  assumes video: "is_video file_path" and fresh: "next_tmp w \<notin> set (tmp_files w)"
    and loaded: "transcriber_load_models e t w = (None, t1, w1)"
    and extraction: "\<forall>x. video_block e ValueError file_path = Some x \<longrightarrow> is_Exception x"
    and run: "transcribe_file e t file_path w = (r, t', w')"
  shows "tmp_files w' = tmp_files w \<and> unlinked w' = unlinked w @ [next_tmp w]"
proof -
  from loaded have u1: "untouched w w1" by (rule load_untouched)
  define n where "n = next_tmp w"
  define tp where "tp = TempPath n (ascii ''.wav'')"
  define w2 where "w2 = w1\<lparr>tmp_files := tmp_files w1 @ [n], next_tmp := Suc n\<rparr>"
  have mk: "mkstemp (ascii ''.wav'') w1 = (tp, w2)"
    using u1 by (simp add: mkstemp_def tp_def w2_def n_def untouched_def)
  have gone: "tmp_files (unlink_if_exists e tp w3) = tmp_files w \<and>
      unlinked (unlink_if_exists e tp w3) = unlinked w @ [n]" if "untouched w2 w3" for w3
    using that u1 fresh
    by (simp add: unlink_if_exists_def tp_def w2_def untouched_def n_def)
  show ?thesis
  proof (cases "video_block e ValueError file_path")
    case None
    then have x: "extract_audio_from_mp4 e file_path w1 = (Inr tp, w2)"
      by (simp add: extract_audio_from_mp4_def mk)
    obtain r3 w3 where t: "transcribe_try e t1 tp w2 = (r3, w3)"
      by (cases "transcribe_try e t1 tp w2")
    then have "untouched w2 w3" by (rule transcribe_try_untouched)
    then have "tmp_files (unlink_if_exists e tp w3) = tmp_files w \<and>
      unlinked (unlink_if_exists e tp w3) = unlinked w @ [n]" by (rule gone)
    moreover from run loaded video x t have "w' = unlink_if_exists e tp w3"
      by (simp add: transcribe_file_def)
    ultimately show ?thesis by (simp add: n_def)
  next
    case (Some x)
    with extraction have "is_Exception x" by simp
    with Some have "extract_audio_from_mp4 e file_path w1 = (Inl RuntimeError, unlink_if_exists e tp w2)"
      by (simp add: extract_audio_from_mp4_def mk)
    with run loaded video have "w' = unlink_if_exists e tp w2"
      by (simp add: transcribe_file_def)
    moreover have "untouched w2 w2" by (rule untouched_refl)
    then have "tmp_files (unlink_if_exists e tp w2) = tmp_files w \<and>
      unlinked (unlink_if_exists e tp w2) = unlinked w @ [n]" by (rule gone)
    ultimately show ?thesis by (simp add: n_def)
  qed
qed

lemma processor_load_untouched:
  assumes "ensure_models e p w = (r, p', w')"
  shows "untouched w w'"
  using assms
  by (auto simp: ensure_models_def processor_load_models_def new_object_def untouched_def Let_def
      split: if_splits sum.splits option.splits prod.splits)

lemma process_body_untouched:
  assumes "untouched w0 w" and "process_body e self p tr results w = (r, w')"
  shows "untouched w0 w'"
  using assms
  by (auto simp: process_body_def process_try_def audio_crop_def transcribe_segment_def
      transcribe_with_def untouched_def
      split: prod.splits if_splits sum.splits option.splits)

lemma process_file_keeps_temp:
  assumes video: "is_video input_path" and moviepy: "moviepy_available e"
    and loaded: "ensure_models e p w = (None, p1, w1)"
    and extraction: "video_block e RuntimeError input_path = None"
    and run: "process_file e p input_path w = (r, p', w')"
  shows "tmp_files w' = tmp_files w @ [next_tmp w] \<and> unlinked w' = unlinked w \<and>
    temp_audio_file p' = Some (TempPath (next_tmp w) (ascii ''.wav''))"
proof -
  from loaded have u1: "untouched w w1" by (rule processor_load_untouched)
  define tp where "tp = TempPath (next_tmp w) (ascii ''.wav'')"
  define w2 where "w2 = w1\<lparr>tmp_files := tmp_files w1 @ [next_tmp w], next_tmp := Suc (next_tmp w)\<rparr>"
  define p2 where "p2 = p1\<lparr>temp_audio_file := Some tp\<rparr>"
  have x: "extract_audio_from_video e p1 input_path w1 = (Inr (Some tp), p2, w2)"
    using u1 moviepy extraction
    by (simp add: extract_audio_from_video_def mkstemp_def tp_def w2_def p2_def untouched_def)
  have f2: "tmp_files w2 = tmp_files w @ [next_tmp w]" "unlinked w2 = unlinked w"
    using u1 by (simp_all add: w2_def untouched_def)
  have t2: "temp_audio_file p2 = Some tp" by (simp add: p2_def)
  show ?thesis
  proof (cases "p_pipeline p2")
    case None
    with run loaded video x f2 t2 show ?thesis by (simp add: process_file_def tp_def)
  next
    case (Some pl)
    show ?thesis
    proof (cases "diarize e tp")
      case (Inl y)
      with Some run loaded video x f2 t2 show ?thesis by (simp add: process_file_def tp_def)
    next
      case (Inr tracks)
      obtain r3 w3 where l: "for_tracks (process_body e p2 tp) tracks [] w2 = (r3, w3)"
        by (cases "for_tracks (process_body e p2 tp) tracks [] w2")
      with untouched_refl [of w2] have "untouched w2 w3"
        by (rule for_tracks_world [where W = "untouched w2", rotated])
          (erule (1) process_body_untouched)
      with Some Inr l run loaded video x f2 t2 show ?thesis
        by (simp add: process_file_def tp_def untouched_def)
    qed
  qed
qed

lemma first_upload:
  "process_file studio new_processor meeting_mp4 empty_world = (Inr [said_a, said_d], once_p, once_w)"
  by (simp add: file_defs run_defs fixture_defs)

text \<open>
  Claim C3 (the code departs from it). \<open>process_file\<close> on \<open>meeting.mp4\<close> returns with the
  extracted audio file in place and nothing unlinked; a second run leaves two files; and
  \<open>cleanup\<close>, run after that, removes only the second. \<open>transcribe_file\<close> on the same input
  has unlinked its file once when it returns.
\<close>

theorem process_file_leaves_temp_file:
  "process_file studio new_processor meeting_mp4 empty_world = (Inr [said_a, said_d], once_p, once_w) \<and>
   tmp_files once_w = [0] \<and> unlinked once_w = [] \<and>
   tmp_files (snd (snd (process_file studio once_p meeting_mp4 once_w))) = [0, 1] \<and>
   unlinked (snd (snd (process_file studio once_p meeting_mp4 once_w))) = [] \<and>
   tmp_files (snd (cleanup studio (fst (snd (process_file studio once_p meeting_mp4 once_w)))
      (snd (snd (process_file studio once_p meeting_mp4 once_w))))) = [0] \<and>
   tmp_files (snd (snd (transcribe_file studio new_transcriber meeting_mp4 empty_world))) = [] \<and>
   unlinked (snd (snd (transcribe_file studio new_transcriber meeting_mp4 empty_world))) = [0]"
  by (simp add: first_upload) (simp add: file_defs run_defs fixture_defs)

section \<open>An empty result\<close>

text \<open>
  Claim C4. If \<open>transcribe_file\<close> returns the empty list to \<open>main\<close>, the process exits
  with status 1 after the message that there is no result; no report has been written.
\<close>

theorem no_report_from_empty_result:
  "input_exists e input_path \<and> py_lower (path_suffix input_path) \<in> set supported_formats \<and>
   transcribe_file e new_transcriber input_path (say Starting (say Banner w)) = (Inr [], t, w1)
   \<longrightarrow> main e input_path out w = (1, say ErrNoResult w1) \<and>
       saved (say ErrNoResult w1) = saved w \<and>
       printed (say ErrNoResult w1) = printed w @ [Banner, Starting, ErrNoResult]"
proof
  assume a: "input_exists e input_path \<and> py_lower (path_suffix input_path) \<in> set supported_formats \<and>
   transcribe_file e new_transcriber input_path (say Starting (say Banner w)) = (Inr [], t, w1)"
  then have "saved w1 = saved (say Starting (say Banner w)) \<and>
      printed w1 = printed (say Starting (say Banner w))"
    using transcribe_file_output by blast
  then have o: "saved (say ErrNoResult w1) = saved w"
    "printed (say ErrNoResult w1) = printed w @ [Banner, Starting, ErrNoResult]"
    by (simp_all add: say_def)
  from a have "main e input_path out w = (1, say ErrNoResult w1)"
    by (simp add: main_def main_try_def Let_def)
  with o show "main e input_path out w = (1, say ErrNoResult w1) \<and>
       saved (say ErrNoResult w1) = saved w \<and>
       printed (say ErrNoResult w1) = printed w @ [Banner, Starting, ErrNoResult]"
    by simp
qed

lemma silent_run:
  "transcribe_file silent new_transcriber meeting_wav (say Starting (say Banner empty_world)) =
     (Inr [], loaded_t,
      empty_world\<lparr>next_obj := 4, printed := [Banner, Starting],
        calls :=
        [CropCall meeting_wav seg_a, WhisperCall \<lparr>shape_last = 32000, content = 1\<rparr> 16000,
         CropCall meeting_wav seg_b, WhisperCall \<lparr>shape_last = 48000, content = 2\<rparr> 16000,
         CropCall meeting_wav seg_d, WhisperCall \<lparr>shape_last = 32000, content = 4\<rparr> 16000]\<rparr>)"
  by (simp add: file_defs run_defs fixture_defs say_def)

theorem no_report_from_empty_result_witness:
  "input_exists silent meeting_wav \<and>
   py_lower (path_suffix meeting_wav) \<in> set supported_formats \<and>
   fst (transcribe_file silent new_transcriber meeting_wav (say Starting (say Banner empty_world)))
     = Inr [] \<and>
   fst (main silent meeting_wav None empty_world) = 1 \<and>
   saved (snd (main silent meeting_wav None empty_world)) = [] \<and>
   printed (snd (main silent meeting_wav None empty_world)) = [Banner, Starting, ErrNoResult]"
proof -
  have i: "input_exists silent meeting_wav" by (simp add: silent_def studio_def)
  have s: "py_lower (path_suffix meeting_wav) \<in> set supported_formats"
    by (simp add: py_lower_def meeting_wav_def supported_formats_def ascii_def)
  from no_report_from_empty_result [where e = silent and input_path = meeting_wav
      and w = empty_world and out = None, THEN mp, OF conjI [OF i conjI [OF s silent_run]]]
  show ?thesis using i s by (simp add: silent_run) (simp add: empty_world_def say_def)
qed

section \<open>The size of an upload\<close>

lemma app_upload_never_stops:
  "StartButton \<in> set (app_upload n) \<and> ErrorBox \<notin> set (app_upload n)"
  by (simp add: app_upload_def Let_def)

text \<open>
  Claim C6 (the code departs from it). For an upload of 1001 MB the page of app.py shows
  the warning and then the start button: the branch with the error and \<open>st.stop()\<close> is an
  \<open>elif\<close> of the test for 500 MB and is never taken.
\<close>

theorem app_upload_1001_mb:
  "app_upload (1001 * 1024 * 1024) = [SuccessBox, InfoBox, WarningBox, StartButton]"
  by (simp add: app_upload_def Let_def)

section \<open>Loading the models\<close>

lemma loaded_transcriber:
  assumes "transcriber_load_models e self0 w0 = (None, self1, w1)"
  shows "diarization_pipeline self1 \<noteq> None"
  using assms
  by (auto simp: transcriber_load_models_def Let_def
      split: if_splits sum.splits option.splits prod.splits)

lemma loaded_processor:
  assumes "ensure_models e self0 w0 = (None, self1, w1)"
  shows "p_pipeline self1 \<noteq> None"
  using assms
  by (auto simp: ensure_models_def processor_load_models_def Let_def
      split: if_splits sum.splits option.splits prod.splits)

lemma first_load:
  "transcriber_load_models studio new_transcriber empty_world =
     (None, loaded_t, empty_world\<lparr>next_obj := 4\<rparr>)"
  "ensure_models studio new_processor empty_world = (None, loaded_p, empty_world\<lparr>next_obj := 4\<rparr>)"
  by (simp_all add: file_defs fixture_defs Let_def)

text \<open>
  Claim C7, as amended. Once a call of \<open>AudioTranscriber._load_models\<close> has returned
  normally, every later call, in any environment and world, returns at once and changes
  neither the object nor the world. The same holds for the guarded call at the start of
  \<open>AudioProcessor.process_file\<close>; \<open>AudioProcessor._load_models\<close> itself has no guard.
\<close>

theorem load_models_once:
  "(transcriber_load_models e ta wa = (None, tb, wb) \<longrightarrow>
      transcriber_load_models e' tb w = (None, tb, w)) \<and>
   (ensure_models e pa wa = (None, pb, wb) \<longrightarrow> ensure_models e' pb w = (None, pb, w))"
proof (intro conjI impI)
  assume "transcriber_load_models e ta wa = (None, tb, wb)"
  then have "diarization_pipeline tb \<noteq> None" by (rule loaded_transcriber)
  then show "transcriber_load_models e' tb w = (None, tb, w)"
    by (simp add: transcriber_load_models_def)
next
  assume "ensure_models e pa wa = (None, pb, wb)"
  then have "p_pipeline pb \<noteq> None" by (rule loaded_processor)
  then show "ensure_models e' pb w = (None, pb, w)"
    by (auto simp: ensure_models_def)
qed

theorem load_models_once_witness:
  "transcriber_load_models studio new_transcriber empty_world =
     (None, loaded_t, empty_world\<lparr>next_obj := 4\<rparr>) \<and>
   transcriber_load_models faulty loaded_t (empty_world\<lparr>next_obj := 4\<rparr>) =
     (None, loaded_t, empty_world\<lparr>next_obj := 4\<rparr>) \<and>
   ensure_models studio new_processor empty_world = (None, loaded_p, empty_world\<lparr>next_obj := 4\<rparr>) \<and>
   ensure_models faulty loaded_p (empty_world\<lparr>next_obj := 4\<rparr>) =
     (None, loaded_p, empty_world\<lparr>next_obj := 4\<rparr>)"
proof -
  note once = load_models_once [where e = studio and ta = new_transcriber and wa = empty_world
      and tb = loaded_t and wb = "empty_world\<lparr>next_obj := 4\<rparr>" and e' = faulty
      and w = "empty_world\<lparr>next_obj := 4\<rparr>" and pa = new_processor and pb = loaded_p]
  from once [THEN conjunct1, THEN mp, OF first_load(1)]
    once [THEN conjunct2, THEN mp, OF first_load(2)] first_load
  show ?thesis by blast
qed

text \<open>
  The claim as stated fails for \<open>AudioProcessor._load_models\<close>: called on the loaded
  processor it instantiates four new objects and replaces the loaded ones.
\<close>

theorem processor_reload_counterexample:
  "processor_load_models studio new_processor empty_world =
     (None, loaded_p, empty_world\<lparr>next_obj := 4\<rparr>) \<and>
   processor_load_models studio loaded_p (empty_world\<lparr>next_obj := 4\<rparr>) =
     (None,
      \<lparr>p_pipeline = Some (Obj DiarizationPipeline 4),
       p_processor = Some (Obj WhisperProcessor 5),
       p_model = Some (Obj WhisperModel 6),
       p_audio_handler = Some (Obj AudioHandler 7),
       temp_audio_file = None\<rparr>,
      empty_world\<lparr>next_obj := 8\<rparr>)"
  by (simp add: processor_load_models_def new_object_def studio_def new_processor_def
      empty_world_def loaded_p_def Let_def)

section \<open>The counts in the report\<close>

lemma speaker_count_card: "speaker_count results = card (r_speaker ` set results)"
  by (simp add: speaker_count_def length_remdups_card_conv)

lemma digits_read_back: "foldl (\<lambda>n d. 10 * n + (d - 48)) 0 (digits n) = n"
proof (induction n rule: digits.induct)
  case (1 n)
  show ?case
  proof (cases "n < 10")
    case True
    then show ?thesis by (simp add: digits.simps [of n])
  next
    case False
    with 1 show ?thesis by (simp add: digits.simps [of n])
  qed
qed

text \<open>
  Claim C8. In both reports the line of the speakers shows, in decimal, the number of
  distinct speaker labels of the segments, and the line of the segments shows the length
  of the list; these are the fifth and sixth lines, after the title, an empty line, the
  input file and the date.
\<close>

theorem report_counts:
  "create_markdown_report e results input_filename =
     t_title @ [10, 10] @ t_input @ input_filename @ [10] @ t_date @ now e @ [10] @
     t_speakers @ digits (card (r_speaker ` set results)) @ mei @ [10] @
     t_total @ digits (length results) @ ko @ [10] @
     join_lines ([[], ascii ''---'', [], t_content, []] @ concat (map report_block results)) \<and>
   results_to_markdown e results input_filename =
     p_title @ [10, 10] @ p_input @ input_filename @ [10] @ p_date @ now e @ [10] @
     p_speakers @ digits (card (r_speaker ` set results)) @ mei @ [10] @
     p_total @ digits (length results) @ ko @ [10] @
     join_lines ([[], p_content, []] @ concat (map markdown_block results))"
  by (simp add: create_markdown_report_def report_header_def results_to_markdown_def
      markdown_header_def speaker_count_card)

end
